theory Spec2Isabelle
  imports Complex_Main
begin

section \<open>Income statistics from bracketed tax-return counts\<close>

text \<open>
  A shallow embedding of \<^verbatim>\<open>income_tax_data_analyzer.py\<close>: the aggregator
  \<^verbatim>\<open>read_in_data\<close> and the estimator \<^verbatim>\<open>lin_approx\<close>, \<^verbatim>\<open>compute_mean\<close>,
  \<^verbatim>\<open>compute_median\<close>, with \<^verbatim>\<open>income_info\<close> composing them.

  Numbers. The counts are Python floats (\<^verbatim>\<open>float(...)\<close> of a table cell), the bounds
  are Python ints, and every operation mixes them. They are modelled as exact rationals:
  \<^verbatim>\<open>/\<close> is division of rationals, \<^verbatim>\<open>// 2\<close> is the floor of the half. Rounding, overflow
  to infinity and NaN cells of IEEE arithmetic are outside this model.

  Failures. A Python exception that leaves a function is the \<open>Inl\<close> branch of its result.
  \<^verbatim>\<open>sys.exit()\<close> raises \<^verbatim>\<open>SystemExit\<close>, which no caller in the program catches, so it
  ends the process.
\<close>

subsection \<open>Data\<close>

datatype py_exception = SystemExit | ZeroDivisionError | IndexError

text \<open>The dictionary built by \<^verbatim>\<open>read_in_data\<close>, one field per key.\<close>

record data_dict =
  zipcode :: string
  counts :: "rat list"
  total :: rat
  lowerbounds :: "rat list"
  upperbounds :: "rat list"



subsection \<open>Python primitives\<close>

text \<open>\<^verbatim>\<open>xs[i]\<close> for an index that is never negative: out of range raises.\<close>

definition index :: "'a list \<Rightarrow> nat \<Rightarrow> py_exception + 'a" where
  "index xs i = (if i < length xs then Inr (xs ! i) else Inl IndexError)"

text \<open>\<^verbatim>\<open>a / b\<close>: a zero divisor raises, for ints and floats alike.\<close>

definition truediv :: "rat \<Rightarrow> rat \<Rightarrow> py_exception + rat" where
  "truediv a b = (if b = 0 then Inl ZeroDivisionError else Inr (a / b))"

text \<open>\<^verbatim>\<open>a // 2\<close>: the floor of the quotient, again as a number.\<close>

definition floordiv2 :: "rat \<Rightarrow> rat" where
  "floordiv2 a = of_int \<lfloor>a / 2\<rfloor>"



subsection \<open>The aggregator\<close>




definition lowerbounds_const :: "rat list" where
  "lowerbounds_const = [1, 25000, 50000, 75000, 100000, 200000]"

definition upperbounds_const :: "rat list" where
  "upperbounds_const = [24999, 49999, 74999, 99999, 199999, 10000000]"


subsection \<open>The estimator\<close>

definition lin_approx :: "rat \<Rightarrow> rat \<Rightarrow> rat \<Rightarrow> rat \<Rightarrow> rat \<Rightarrow> py_exception + rat" where
  "lin_approx x_1 y_1 x_2 y_2 x_0 =
     (case truediv (y_2 - y_1) (x_2 - x_1) of
        Inl e \<Rightarrow> Inl e
      | Inr slope \<Rightarrow> Inr (slope * (x_0 - x_1) + y_1))"

text \<open>
  The loop of \<^verbatim>\<open>compute_mean\<close> over \<^verbatim>\<open>zip(lowerbounds, upperbounds, counts)\<close>, which
  stops with the shortest of the three; the argument is the list of triples.
\<close>

fun mean_loop :: "(rat \<times> rat \<times> rat) list \<Rightarrow> rat \<Rightarrow> rat" where
  "mean_loop [] numerator = numerator"
| "mean_loop ((t0, t1, t2) # ts) numerator =
     (let midpoint = (t0 + t1) / 2 in mean_loop ts (numerator + t2 * midpoint))"

definition compute_mean :: "data_dict \<Rightarrow> py_exception + rat" where
  "compute_mean d =
     (let endpoints_and_counts = zip (lowerbounds d) (zip (upperbounds d) (counts d));
          numerator = mean_loop endpoints_and_counts 0
      in truediv numerator (total d))"

definition brackets :: "rat list" where
  "brackets = [1, 25000, 50000, 75000, 100000, 200000, 10000000]"

text \<open>
  The loop of \<^verbatim>\<open>compute_median\<close> over the counts still to visit, with the variables
  \<^verbatim>\<open>bracket_number\<close>, \<^verbatim>\<open>running_total_returns\<close> and \<^verbatim>\<open>result\<close> passed along.
  The \<^verbatim>\<open>break\<close> is the branch that makes no recursive call.
\<close>

fun median_loop :: "rat list \<Rightarrow> rat \<Rightarrow> nat \<Rightarrow> rat \<Rightarrow> rat \<Rightarrow> py_exception + rat" where
  "median_loop [] median_x bracket_number running_total_returns result = Inr result"
| "median_loop (current_count # cs) median_x bracket_number running_total_returns result =
     (let running_total_returns = running_total_returns + current_count in
      if running_total_returns > median_x then
        (case index brackets bracket_number of
           Inl e \<Rightarrow> Inl e
         | Inr y_1 \<Rightarrow>
             (case index brackets (bracket_number + 1) of
                Inl e \<Rightarrow> Inl e
              | Inr y_2 \<Rightarrow>
                  (let x_1 = running_total_returns - current_count;
                       x_2 = running_total_returns
                   in lin_approx x_1 y_1 x_2 y_2 median_x)))
      else median_loop cs median_x (bracket_number + 1) running_total_returns result)"

definition compute_median :: "data_dict \<Rightarrow> py_exception + rat" where
  "compute_median d =
     (let median_x = floordiv2 (total d)
      in median_loop (counts d) median_x 0 0 (- 1))"


subsection \<open>Records the properties speak about\<close>

text \<open>The running total through bracket \<open>k\<close> (0-based): the sum of the first \<open>k + 1\<close> counts.\<close>

definition running_total :: "rat list \<Rightarrow> nat \<Rightarrow> rat" where
  "running_total cs k = sum_list (take (Suc k) cs)"



definition mk_record :: "rat list \<Rightarrow> rat \<Rightarrow> data_dict" where
  "mk_record cs t =
     \<lparr>zipcode = ''98115'', counts = cs, total = t,
      lowerbounds = lowerbounds_const, upperbounds = upperbounds_const\<rparr>"

subsection \<open>The median as the specification words it\<close>


definition spec_median_rank :: "rat \<Rightarrow> rat" where
  "spec_median_rank t = of_int \<lfloor>t / 2\<rfloor>"



text \<open>No bracket of the walk has a running total above the median rank.\<close>

definition no_target :: "rat list \<Rightarrow> rat \<Rightarrow> bool" where
  "no_target cs t \<longleftrightarrow>
     list_all (\<lambda>k. \<not> spec_median_rank t < running_total cs k) [0..<length cs]"

subsection \<open>The table rows the aggregator reads\<close>





section \<open>Properties\<close>

subsection \<open>Lists and running totals\<close>

lemma mean_loop_sum:
  "mean_loop ts n = n + sum_list (map (\<lambda>(t0, t1, t2). t2 * ((t0 + t1) / 2)) ts)"
  by (induction ts arbitrary: n) (auto simp: Let_def)


lemma running_total_Cons_0: "running_total (c # cs) 0 = c"
  by (simp add: running_total_def)

lemma running_total_Cons_Suc: "running_total (c # cs) (Suc k) = c + running_total cs k"
  by (simp add: running_total_def)



lemma median_loop_none:
  "\<forall>j<length cs. r + running_total cs j \<le> mx \<Longrightarrow> median_loop cs mx bn r res = Inr res"
proof (induction cs arbitrary: bn r)
  case Nil
  then show ?case by simp
next
  case (Cons c cs)
  from Cons.prems have first: "r + c \<le> mx"
    by (auto simp: running_total_Cons_0 dest: spec [of _ 0])
  have rest: "\<forall>j<length cs. (r + c) + running_total cs j \<le> mx"
  proof (intro allI impI)
    fix j assume "j < length cs"
    hence "Suc j < length (c # cs)" by simp
    with Cons.prems have "r + running_total (c # cs) (Suc j) \<le> mx" by blast
    thus "(r + c) + running_total cs j \<le> mx"
      by (simp add: running_total_Cons_Suc add.assoc)
  qed
  from Cons.IH [OF rest] first show ?case
    by (simp add: Let_def)
qed


subsection \<open>The bracket walk\<close>



















subsection \<open>The mean\<close>







text \<open>
  C5. For a record whose total is zero, \<^verbatim>\<open>compute_mean\<close> fails with the division
  error (Python's \<^verbatim>\<open>ZeroDivisionError\<close>) and returns no number.
\<close>

theorem compute_mean_zero_total:
  "total d = 0 \<Longrightarrow> compute_mean d = Inl ZeroDivisionError \<and> (\<forall>m. compute_mean d \<noteq> Inr m)"
  by (simp add: compute_mean_def truediv_def Let_def)

theorem compute_mean_zero_total_witness:
  "total (mk_record [0, 0, 0, 0, 0, 0] 0) = 0
   \<and> compute_mean (mk_record [0, 0, 0, 0, 0, 0] 0) = Inl ZeroDivisionError"
  using compute_mean_zero_total [of "mk_record [0, 0, 0, 0, 0, 0] 0"]
  by (simp add: mk_record_def)




subsection \<open>The median: failure and bounds\<close>

lemma no_target_iff:
  "no_target cs t \<longleftrightarrow> (\<forall>k<length cs. running_total cs k \<le> floordiv2 t)"
  by (auto simp: no_target_def list_all_iff spec_median_rank_def floordiv2_def not_less)

text \<open>
  C4, as the code has it. For a record in which no bracket has a running total above the
  median rank, \<^verbatim>\<open>compute_median\<close> raises nothing and returns the initial value of
  \<^verbatim>\<open>result\<close>, the number \<open>-1\<close>.
\<close>

theorem compute_median_sentinel:
  "no_target (counts d) (total d) \<Longrightarrow> compute_median d = Inr (- 1)"
proof -
  assume "no_target (counts d) (total d)"
  hence "\<forall>j<length (counts d). 0 + running_total (counts d) j \<le> floordiv2 (total d)"
    by (simp add: no_target_iff)
  thus ?thesis
    unfolding compute_median_def Let_def by (rule median_loop_none)
qed

theorem compute_median_sentinel_witness:
  "no_target (counts (mk_record [1, 1, 1, 0, 0, 0] 8)) (total (mk_record [1, 1, 1, 0, 0, 0] 8))
   \<and> compute_median (mk_record [1, 1, 1, 0, 0, 0] 8) = Inr (- 1)"
proof -
  have n: "no_target (counts (mk_record [1, 1, 1, 0, 0, 0] 8)) (total (mk_record [1, 1, 1, 0, 0, 0] 8))"
    by code_simp
  from compute_median_sentinel [OF n] n show ?thesis by simp
qed

text \<open>
  With six zero counts and total zero the median is the number \<open>-1\<close>, not a failure.
\<close>

theorem compute_median_sentinel_counterexample:
  "compute_median (mk_record [0, 0, 0, 0, 0, 0] 0) = Inr (- 1)"
  by code_simp










subsection \<open>The aggregator\<close>












end
